theory Spec2Isabelle
  imports Complex_Main "HOL-Library.AList"
begin

section \<open>Python values shared by the three source files\<close>

text \<open>
  Exceptions of the Python sources are values. Only the exception classes that the
  modelled functions raise, catch or construct are listed; \<open>OtherError\<close> stands for any
  other \<^verbatim>\<open>Exception\<close> subclass an external collaborator may raise.
\<close>

datatype exn =
    ImportError
  | AttributeError
  | ValueError string
  | UnboundLocalError string
  | IndexError
  | KeyError string
  | AssertionError string
  | NotImplementedError string
  | PipelineException string
  | DataJointError string
  | OtherError string

section \<open>The polling worker: \<^verbatim>\<open>scripts/worker-populate.py\<close>\<close>

subsection \<open>String helpers of the Python standard library\<close>

text \<open>\<^verbatim>\<open>str.split(sep)\<close> with a one-character separator: never returns an empty list.\<close>

fun split_on :: "char \<Rightarrow> string \<Rightarrow> string list" where
  "split_on c [] = [[]]"
| "split_on c (x # xs) =
     (if x = c then [] # split_on c xs
      else (case split_on c xs of
              [] \<Rightarrow> [[x]]
            | w # ws \<Rightarrow> (x # w) # ws))"

text \<open>The ASCII characters for which \<^verbatim>\<open>str.isspace\<close> holds.\<close>

definition isspace :: "char \<Rightarrow> bool" where
  "isspace c =
     (let n = (of_char c :: nat) in n = 32 \<or> (9 \<le> n \<and> n \<le> 13) \<or> (28 \<le> n \<and> n \<le> 31))"

definition strip :: "string \<Rightarrow> string" where
  "strip s = rev (dropWhile isspace (rev (dropWhile isspace s)))"

text \<open>
  \<^verbatim>\<open>s.rsplit(c, 1)\<close>: one split at the last occurrence of \<open>c\<close>, or the whole string
  in a one-element list when \<open>c\<close> does not occur.
\<close>

definition rsplit1 :: "char \<Rightarrow> string \<Rightarrow> string list" where
  "rsplit1 c s =
     (if c \<in> set s
      then [rev (tl (dropWhile (\<lambda>x. x \<noteq> c) (rev s))), rev (takeWhile (\<lambda>x. x \<noteq> c) (rev s))]
      else [s])"

subsection \<open>Arguments, environment and observable events\<close>

text \<open>The namespace returned by \<^verbatim>\<open>parser.parse_args\<close>.\<close>

record args =
  relations :: string
  daemon :: bool
  t_min :: int
  t_max :: int

text \<open>
  What the worker calls but does not define: the import system, the two methods of a
  relation object it uses, and the random source behind \<^verbatim>\<open>np.random.randint\<close>.
  \<open>'m\<close> is a module, \<open>'r\<close> a relation class, \<open>'w\<close> the state of the database.
\<close>

record ('m, 'r, 'w) env =
  import_module :: "string \<Rightarrow> exn + 'm"
  getattr :: "'m \<Rightarrow> string \<Rightarrow> exn + 'r"
  progress :: "'r \<Rightarrow> 'w \<Rightarrow> exn + (int \<times> int)"
  populate :: "'r \<Rightarrow> 'w \<Rightarrow> exn + 'w"
  random_source :: "nat \<Rightarrow> nat"

datatype event =
    Print string
  | ProgressCall string
  | PopulateCall string
  | Sleep int

record 'w wstate =
  world :: 'w
  events :: "event list"
  draws :: nat

definition emit :: "event \<Rightarrow> 'w wstate \<Rightarrow> 'w wstate" where
  "emit e st = st\<lparr>events := events st @ [e]\<rparr>"

text \<open>How a call of \<^verbatim>\<open>main\<close> ends: by \<^verbatim>\<open>return n\<close> or by an uncaught exception.\<close>

datatype outcome = Returned int | Raised exn


subsection \<open>Resolving the relation names (lines 24--39)\<close>

text \<open>
  One iteration per name. \<^verbatim>\<open>p, m = relname.rsplit('.', 1)\<close> raises \<^verbatim>\<open>ValueError\<close>
  when the name has no dot; only \<^verbatim>\<open>ImportError\<close> and \<^verbatim>\<open>AttributeError\<close> are caught.
  \<open>rels_cls\<close> is a dict: a repeated name overwrites its entry in place.
\<close>

fun resolve ::
  "('m, 'r, 'w) env \<Rightarrow> string list \<Rightarrow> (string \<times> 'r) list \<Rightarrow> 'w wstate
     \<Rightarrow> (outcome + (string \<times> 'r) list) \<times> 'w wstate" where
  "resolve E [] rels_cls st = (Inr rels_cls, st)"
| "resolve E (relname # rest) rels_cls st =
     (case rsplit1 CHR ''.'' relname of
        [p, m] \<Rightarrow>
          (case import_module E p of
             Inl ImportError \<Rightarrow>
               (Inl (Returned 1), emit (Print (''Could not find module '' @ p)) st)
           | Inl e \<Rightarrow> (Inl (Raised e), st)
           | Inr md \<Rightarrow>
               (case getattr E md m of
                  Inl AttributeError \<Rightarrow>
                    (Inl (Returned 1), emit (Print (''Could not find class '' @ m)) st)
                | Inl e \<Rightarrow> (Inl (Raised e), st)
                | Inr rel \<Rightarrow> resolve E rest (AList.update relname rel rels_cls) st))
      | _ \<Rightarrow> (Inl (Raised (ValueError ''not enough values to unpack'')), st))"

subsection \<open>One poll over all relations (lines 44--48)\<close>

fun for_rels ::
  "('m, 'r, 'w) env \<Rightarrow> (string \<times> 'r) list \<Rightarrow> bool \<Rightarrow> 'w wstate
     \<Rightarrow> (exn + bool) \<times> 'w wstate" where
  "for_rels E [] populated_at_least_one st = (Inr populated_at_least_one, st)"
| "for_rels E ((name, rel) # rest) populated_at_least_one st =
     (let st1 = emit (ProgressCall name) st in
      case progress E rel (world st1) of
        Inl e \<Rightarrow> (Inl e, st1)
      | Inr (todo, done) \<Rightarrow>
          if todo > 0 then
            (let st2 = emit (PopulateCall name) st1 in
             case populate E rel (world st2) of
               Inl e \<Rightarrow> (Inl e, st2)
             | Inr w' \<Rightarrow> for_rels E rest True (st2\<lparr>world := w'\<rparr>))
          else for_rels E rest populated_at_least_one st1)"

subsection \<open>Sleeping (line 50)\<close>

text \<open>
  \<^verbatim>\<open>np.random.randint(low, high)\<close> draws from the half-open interval \<open>[low, high)\<close>
  and raises \<^verbatim>\<open>ValueError\<close> when it is empty. \<open>r\<close> is the raw value of the random
  source for this draw.
\<close>

definition randint :: "int \<Rightarrow> int \<Rightarrow> nat \<Rightarrow> exn + int" where
  "randint low high r =
     (if low \<ge> high then Inl (ValueError ''low >= high'')
      else Inr (low + int r mod (high - low)))"

text \<open>\<^verbatim>\<open>time.sleep(secs)\<close> rejects a negative length.\<close>

definition time_sleep :: "int \<Rightarrow> 'w wstate \<Rightarrow> exn + 'w wstate" where
  "time_sleep secs st =
     (if secs < 0 then Inl (ValueError ''sleep length must be non-negative'')
      else Inr (emit (Sleep secs) st))"

definition sleep_random :: "('m, 'r, 'w) env \<Rightarrow> args \<Rightarrow> 'w wstate \<Rightarrow> exn + 'w wstate" where
  "sleep_random E a st =
     (case randint (t_min a) (t_max a) (random_source E (draws st)) of
        Inl e \<Rightarrow> Inl e
      | Inr secs \<Rightarrow> time_sleep secs (st\<lparr>draws := Suc (draws st)\<rparr>))"

subsection \<open>The loop (lines 41--52) and \<^verbatim>\<open>main\<close>\<close>

text \<open>
  \<^verbatim>\<open>while run_daemon:\<close> may run forever, so the loop takes fuel: one unit per
  iteration, \<open>None\<close> when it runs out. \<open>run_daemon\<close> is the loop variable of the
  source: \<open>True\<close> on entry, \<^verbatim>\<open>args.daemon\<close> after the first iteration. The test on
  line 49 reads it before line 51 assigns it.
\<close>

fun main_loop ::
  "('m, 'r, 'w) env \<Rightarrow> args \<Rightarrow> (string \<times> 'r) list \<Rightarrow> nat \<Rightarrow> bool \<Rightarrow> 'w wstate
     \<Rightarrow> outcome option \<times> 'w wstate" where
  "main_loop E a rels_cls fuel run_daemon st =
     (if \<not> run_daemon then (Some (Returned 0), st)
      else case fuel of
        0 \<Rightarrow> (None, st)
      | Suc n \<Rightarrow>
          (case for_rels E rels_cls False st of
             (Inl e, st1) \<Rightarrow> (Some (Raised e), st1)
           | (Inr populated_at_least_one, st1) \<Rightarrow>
               (if run_daemon \<and> \<not> populated_at_least_one then
                  (case sleep_random E a st1 of
                     Inl e \<Rightarrow> (Some (Raised e), st1)
                   | Inr st2 \<Rightarrow> main_loop E a rels_cls n (daemon a) st2)
                else main_loop E a rels_cls n (daemon a) st1)))"

definition relnames :: "args \<Rightarrow> string list" where
  "relnames a = map strip (split_on CHR '','' (relations a))"

definition main :: "('m, 'r, 'w) env \<Rightarrow> args \<Rightarrow> nat \<Rightarrow> 'w \<Rightarrow> outcome option \<times> 'w wstate" where
  "main E a fuel w0 =
     (case resolve E (relnames a) [] \<lparr>world = w0, events = [], draws = 0\<rparr> of
        (Inl out, st) \<Rightarrow> (Some out, st)
      | (Inr rels_cls, st) \<Rightarrow> main_loop E a rels_cls fuel True st)"

section \<open>The DataJoint operators the pipeline sources use\<close>

text \<open>
  A fetched row and a key are Python dicts from attribute names to values: association
  lists read with \<open>map_of\<close> and written with \<open>AList.update\<close>. Attribute values are
  integers, strings, numbers of a \<^verbatim>\<open>float\<close> or \<^verbatim>\<open>decimal\<close> column (kept exact, as
  rationals), arrays of a \<^verbatim>\<open>blob\<close> column, or the missing value (\<^verbatim>\<open>None\<close>, \<^verbatim>\<open>NaN\<close>,
  SQL \<^verbatim>\<open>NULL\<close>).
\<close>

datatype val = I int | S string | Q rat | Blob "rat list" | Null

type_synonym tuple = "(string \<times> val) list"

text \<open>
  A relation object: the attributes of its primary key, its other attributes, and its
  rows in fetch order.
\<close>

record relation =
  primary :: "string list"
  secondary :: "string list"
  tuples :: "tuple list"

definition heading :: "relation \<Rightarrow> string list" where
  "heading A = primary A @ secondary A"

definition agree :: "string list \<Rightarrow> tuple \<Rightarrow> tuple \<Rightarrow> bool" where
  "agree attrs r s = list_all (\<lambda>a. map_of r a = map_of s a) attrs"

text \<open>Two relations are matched on the attributes whose names they share.\<close>

definition common :: "relation \<Rightarrow> relation \<Rightarrow> string list" where
  "common A B = filter (\<lambda>a. a \<in> set (heading B)) (heading A)"

text \<open>\<^verbatim>\<open>A & B\<close>: the rows of \<open>A\<close> that match some row of \<open>B\<close>.\<close>

definition restrict_rel :: "relation \<Rightarrow> relation \<Rightarrow> relation" where
  "restrict_rel A B =
     A\<lparr>tuples := filter (\<lambda>r. list_ex (agree (common A B) r) (tuples B)) (tuples A)\<rparr>"









text \<open>\<^verbatim>\<open>A.fetch1\<close> raises unless the relation has exactly one row.\<close>

definition fetch1 :: "relation \<Rightarrow> exn + tuple" where
  "fetch1 A =
     (case tuples A of
        [t] \<Rightarrow> Inr t
      | _ \<Rightarrow> Inl (DataJointError ''fetch1 should only be used for relations with exactly one tuple''))"

definition fetch1_attr :: "relation \<Rightarrow> string \<Rightarrow> exn + val" where
  "fetch1_attr A attr =
     (case fetch1 A of
        Inl e \<Rightarrow> Inl e
      | Inr t \<Rightarrow> (case map_of t attr of
                    None \<Rightarrow> Inl (DataJointError (''unknown attribute '' @ attr))
                  | Some v \<Rightarrow> Inr v))"


section \<open>Resonant-scanner pipeline: \<^verbatim>\<open>pipeline/reso.py\<close>\<close>

subsection \<open>Tables\<close>

text \<open>
  \<^verbatim>\<open>experiment.Scan\<close>, \<^verbatim>\<open>shared.Slice\<close> and \<^verbatim>\<open>shared.Channel\<close> are declared outside
  these files; their primary keys are the attribute names \<^verbatim>\<open>reso.py\<close> itself uses for
  them (the lists at lines 1246 and 1300, the restrictions at lines 276 and 525), and
  likewise \<open>extract_method\<close> for \<^verbatim>\<open>shared.SegmentationMethod\<close>. \<^verbatim>\<open>shared.SpikeMethod\<close>
  is part of the state as a whole relation, heading included; its primary key is
  \<open>spike_method\<close> in every state considered.
\<close>

definition scan_pk :: "string list" where
  "scan_pk = [''animal_id'', ''session'', ''scan_idx'']"

record reso_db =
  ScanInfo_rows :: "tuple list"
  ScanInfo_Slice_rows :: "tuple list"
  CorrectionChannel_rows :: "tuple list"
  RasterCorrection_rows :: "tuple list"
  SegmentationTask_rows :: "tuple list"
  Calcium_Trace_rows :: "tuple list"
  ScanSet_rows :: "tuple list"
  ScanSet_Unit_rows :: "tuple list"
  shared_SpikeMethod :: relation
  Activity_rows :: "tuple list"
  Activity_Trace_rows :: "tuple list"

definition ScanInfo :: "reso_db \<Rightarrow> relation" where
  "ScanInfo db =
     \<lparr>primary = scan_pk,
      secondary = [''nslices'', ''nchannels'', ''nframes'', ''nframes_requested'',
                   ''px_height'', ''px_width'', ''um_height'', ''um_width'', ''x'', ''y'',
                   ''fps'', ''zoom'', ''bidirectional'', ''usecs_per_line'', ''fill_fraction''],
      tuples = ScanInfo_rows db\<rparr>"

definition ScanInfo_Slice :: "reso_db \<Rightarrow> relation" where
  "ScanInfo_Slice db =
     \<lparr>primary = scan_pk @ [''slice''], secondary = [''z''], tuples = ScanInfo_Slice_rows db\<rparr>"

definition CorrectionChannel :: "reso_db \<Rightarrow> relation" where
  "CorrectionChannel db =
     \<lparr>primary = scan_pk @ [''slice''], secondary = [''channel''],
      tuples = CorrectionChannel_rows db\<rparr>"

definition RasterCorrection :: "reso_db \<Rightarrow> relation" where
  "RasterCorrection db =
     \<lparr>primary = scan_pk,
      secondary = [''slice'', ''channel'', ''template'', ''raster_phase''],
      tuples = RasterCorrection_rows db\<rparr>"

definition SegmentationTask :: "reso_db \<Rightarrow> relation" where
  "SegmentationTask db =
     \<lparr>primary = scan_pk @ [''slice'', ''channel''], secondary = [''compartment''],
      tuples = SegmentationTask_rows db\<rparr>"







subsection \<open>\<^verbatim>\<open>RasterCorrection.key_source\<close> (lines 264--267)\<close>




subsection \<open>\<^verbatim>\<open>SegmentationTask.estimate_num_components\<close> (lines 552--578)\<close>

text \<open>The number in a numeric column.\<close>

fun number :: "val \<Rightarrow> rat" where
  "number (I n) = of_int n"
| "number (Q q) = q"
| "number (S s) = 0"
| "number (Blob a) = 0"
| "number Null = 0"

text \<open>Python 3 \<^verbatim>\<open>round\<close> with one argument: to the nearest integer, ties to even.\<close>

definition py_round :: "rat \<Rightarrow> int" where
  "py_round x =
     (let f = \<lfloor>x\<rfloor>; d = x - of_int f in
      if d < 1 / 2 then f
      else if 1 / 2 < d then f + 1
      else if even f then f else f + 1)"

text \<open>
  What a call leaves behind: the exception objects it constructed without raising them,
  and how it ended.
\<close>

record 'a call =
  constructed :: "exn list"
  outcome :: "exn + 'a"

text \<open>
  \<open>self\<close> is the relation the method is called on, a restriction of
  \<^verbatim>\<open>SegmentationTask\<close>. The local \<open>num_components\<close> is bound in the first two branches
  only; the third evaluates a constructor call as an expression statement and goes on
  to the \<^verbatim>\<open>return\<close>, which reads the local. The compartment is a string column, and
  the two lengths are numeric columns.
\<close>

definition estimate_num_components :: "reso_db \<Rightarrow> relation \<Rightarrow> int call" where
  "estimate_num_components db self =
     (case fetch1 (restrict_rel (ScanInfo db) self) of
        Inl e \<Rightarrow> \<lparr>constructed = [], outcome = Inl e\<rparr>
      | Inr t \<Rightarrow>
          (case (map_of t ''um_height'', map_of t ''um_width'') of
             (Some slice_height, Some slice_width) \<Rightarrow>
               (let slice_thickness = 10;
                    slice_volume = number slice_width * number slice_height * slice_thickness
                in case fetch1_attr self ''compartment'' of
                     Inl e \<Rightarrow> \<lparr>constructed = [], outcome = Inl e\<rparr>
                   | Inr compartment \<Rightarrow>
                       (let (objs, num_components) =
                              (if compartment = S ''soma'' then ([], Some (slice_volume * (1 / 10000)))
                               else if compartment = S ''axon'' then ([], Some (slice_volume * (1 / 1000)))
                               else ([PipelineException
                                        (''Compartment type '' @ [CHR 0x27] @
                                         (case compartment of S c \<Rightarrow> c | _ \<Rightarrow> ''None'') @
                                         [CHR 0x27] @ '' not recognized'')], None))
                        in case num_components of
                             None \<Rightarrow> \<lparr>constructed = objs,
                                       outcome = Inl (UnboundLocalError ''num_components'')\<rparr>
                           | Some n \<Rightarrow> \<lparr>constructed = objs, outcome = Inr (py_round n)\<rparr>))
           | _ \<Rightarrow> \<lparr>constructed = [], outcome = Inl (DataJointError ''unknown attribute'')\<rparr>))"


subsection \<open>\<^verbatim>\<open>Activity\<close>: key source (line 1280) and \<^verbatim>\<open>_make_tuples\<close> (lines 1292--1338)\<close>






section \<open>Eye tracking for AOD scans: \<^verbatim>\<open>pipeline/aodtrk.py\<close>\<close>

subsection \<open>Python helpers\<close>









subsection \<open>Tables\<close>

text \<open>
  \<^verbatim>\<open>aodpre.Scan\<close> is declared outside these files, so the whole relation, heading
  included, is part of the state; \<^verbatim>\<open>TrackInfo\<close>, \<^verbatim>\<open>Roi\<close> and \<^verbatim>\<open>EyeFrame\<close> inherit its
  primary key.
\<close>

record aod_db =
  aodpre_Scan :: relation
  TrackInfo_rows :: "tuple list"
  Roi_rows :: "tuple list"
  ParamEyeFrame_rows :: "tuple list"
  EyeFrame_rows :: "tuple list"
  EyeFrame_Detection_rows :: "tuple list"





definition EyeFrame :: "aod_db \<Rightarrow> relation" where
  "EyeFrame db =
     \<lparr>primary = primary (aodpre_Scan db) @ [''pupil_tracker_param_id'', ''frame''],
      secondary = [''eye_frame_ts''],
      tuples = EyeFrame_rows db\<rparr>"


subsection \<open>\<^verbatim>\<open>TrackInfo._make_tuples\<close> (lines 30--65)\<close>


text \<open>
  A compute function returns the exception it raised, if any, and the database as it
  left it, inserts made before the exception included.
\<close>





subsection \<open>\<^verbatim>\<open>EyeFrame._make_tuples\<close> (lines 200--223)\<close>





section \<open>The Cascade Delete Manager\<close>













section \<open>The Job Reservation Store and the Populate Executor\<close>

text \<open>
  Modelled from the spec: \<^verbatim>\<open>populate\<close> and its job reservation belong to the DataJoint
  library; the sources only call \<^verbatim>\<open>rel().populate(reserve_jobs=True)\<close>
  (\<^verbatim>\<open>worker-populate.py\<close>, line 48). Section 4.2: \<open>try_reserve\<close> is an insert-if-absent
  on the reservation of a stage and key, \<open>mark_done\<close> and \<open>mark_error\<close> set its status.
  Section 4.3: for each pending key the executor attempts the reservation and skips the
  key on conflict; otherwise it invokes the compute function and either commits its
  result as a whole and marks the key done, or records the error and goes on to the
  next key. It returns the counts of keys attempted, succeeded and failed.

  The compute functions of the sources insert their rows themselves, so a compute
  function here returns the exception it raised, if any, and the database as it left
  it. The result set of the specification is the difference the call made: kept as a
  whole when the call ends normally, dropped as a whole when it raises. Timestamps and
  the notification hook, which do not touch the stored rows, are left out.
\<close>

datatype status = Reserved string | Done | Error exn

type_synonym reservation_store = "string \<times> tuple \<Rightarrow> status option"




definition release :: "string \<Rightarrow> tuple \<Rightarrow> reservation_store \<Rightarrow> reservation_store" where
  "release stage key js = js((stage, key) := None)"

text \<open>
  A stage as the executor sees it: its id, the Key Source Resolver's pending keys, its
  completed set, and its compute function.
\<close>

record 'db stage =
  stage_id :: string
  pending_keys :: "'db \<Rightarrow> tuple list"
  completed :: "'db \<Rightarrow> tuple list"
  compute :: "'db \<Rightarrow> tuple \<Rightarrow> exn option \<times> 'db"









section \<open>Vocabulary of the worker's properties\<close>



definition example_env :: "(unit, nat, nat \<Rightarrow> int) env" where
  "example_env =
     \<lparr>import_module = (\<lambda>p. if p = ''pipeline.reso'' then Inr () else Inl ImportError),
      getattr = (\<lambda>md m. if m = ''ScanInfo'' then Inr 0
                         else if m = ''Activity'' then Inr 1 else Inl AttributeError),
      progress = (\<lambda>rel w. Inr (w rel, 0)),
      populate = (\<lambda>rel w. Inr (w(rel := 0))),
      random_source = (\<lambda>n. 7 * n + 3)\<rparr>"




definition idle :: "('m, 'r, 'w) env \<Rightarrow> 'w \<Rightarrow> (string \<times> 'r) list \<Rightarrow> bool" where
  "idle E w rels =
     list_all (\<lambda>(name, rel). case progress E rel w of Inl e \<Rightarrow> False | Inr (todo, dn) \<Rightarrow> todo \<le> 0) rels"

definition args_idle_once :: args where
  "args_idle_once = \<lparr>relations = ''pipeline.reso.ScanInfo'', daemon = False, t_min = 5, t_max = 6\<rparr>"

definition args_daemon_5_5 :: args where
  "args_daemon_5_5 = \<lparr>relations = ''pipeline.reso.ScanInfo'', daemon = True, t_min = 5, t_max = 5\<rparr>"

section \<open>Vocabulary of the properties of \<^verbatim>\<open>reso.py\<close>\<close>




definition scan_row :: tuple where
  "scan_row =
     [(''animal_id'', I 17), (''session'', I 1), (''scan_idx'', I 3), (''nslices'', I 2),
      (''nchannels'', I 1), (''nframes'', I 1000), (''nframes_requested'', I 1000),
      (''px_height'', I 256), (''px_width'', I 256), (''um_height'', Q 400),
      (''um_width'', Q 500), (''x'', Q 0), (''y'', Q 0), (''fps'', Q 30), (''zoom'', Q 2),
      (''bidirectional'', I 1), (''usecs_per_line'', Q 63), (''fill_fraction'', Q (7 / 10))]"

definition scan_key :: tuple where
  "scan_key = [(''animal_id'', I 17), (''session'', I 1), (''scan_idx'', I 3)]"


definition db_ready :: reso_db where
  "db_ready =
     \<lparr>ScanInfo_rows = [scan_row],
      ScanInfo_Slice_rows =
        [scan_key @ [(''slice'', I 1), (''z'', Q 100)], scan_key @ [(''slice'', I 2), (''z'', Q 150)]],
      CorrectionChannel_rows =
        [scan_key @ [(''slice'', I 1), (''channel'', I 1)],
         scan_key @ [(''slice'', I 2), (''channel'', I 1)]],
      RasterCorrection_rows = [],
      SegmentationTask_rows =
        [scan_key @ [(''slice'', I 1), (''channel'', I 1), (''compartment'', S ''bouton'')]],
      Calcium_Trace_rows = [], ScanSet_rows = [], ScanSet_Unit_rows = [],
      shared_SpikeMethod = \<lparr>primary = [''spike_method''], secondary = [], tuples = []\<rparr>,
      Activity_rows = [], Activity_Trace_rows = []\<rparr>"

section \<open>Vocabulary of the properties of \<^verbatim>\<open>aodtrk.py\<close>\<close>








definition only_param_0 :: "aod_db \<Rightarrow> aod_db" where
  "only_param_0 db =
     db\<lparr>ParamEyeFrame_rows :=
          filter (\<lambda>r. map_of r ''pupil_tracker_param_id'' = Some (I 0)) (ParamEyeFrame_rows db)\<rparr>"

section \<open>A cascade scenario\<close>



section \<open>Vocabulary of the executor's properties\<close>











section \<open>Properties of the polling worker\<close>

lemma events_emit [simp]: "events (emit e st) = events st @ [e]" "world (emit e st) = world st" "draws (emit e st) = draws st"
  by (simp_all add: emit_def)






text \<open>
  When the interval is not empty the draw succeeds and lies in \<open>[low, high)\<close>, hence in
  the closed interval of the specification; \<open>high\<close> itself is never drawn.
\<close>

lemma randint_range:
  assumes "low < high"
  shows "\<exists>d. randint low high r = Inr d \<and> low \<le> d \<and> d < high"
proof -
  have m: "0 < high - low" using assms by simp
  have lo: "0 \<le> int r mod (high - low)" by (rule pos_mod_sign [OF m])
  have hi: "int r mod (high - low) < high - low" by (rule pos_mod_bound [OF m])
  have "randint low high r = Inr (low + int r mod (high - low))"
    using assms by (simp add: randint_def)
  moreover have "low \<le> low + int r mod (high - low)" using lo by linarith
  moreover have "low + int r mod (high - low) < high" using hi by linarith
  ultimately show ?thesis by blast
qed

lemma sleep_random_ok:
  assumes "0 \<le> t_min a" "t_min a < t_max a"
  shows "\<exists>d. sleep_random E a st = Inr (emit (Sleep d) (st\<lparr>draws := Suc (draws st)\<rparr>))
            \<and> t_min a \<le> d \<and> d < t_max a"
proof -
  obtain d where d: "randint (t_min a) (t_max a) (random_source E (draws st)) = Inr d"
      "t_min a \<le> d" "d < t_max a"
    using randint_range [OF assms(2)] by blast
  then show ?thesis using assms(1) by (intro exI [of _ d]) (simp add: sleep_random_def time_sleep_def)
qed







lemma for_rels_idle:
  "idle E (world st) rels \<Longrightarrow>
     for_rels E rels pop st = (Inr pop, st\<lparr>events := events st @ map (ProgressCall \<circ> fst) rels\<rparr>)"
proof (induction rels arbitrary: st)
  case Nil
  then show ?case by simp
next
  case (Cons x rels)
  obtain name rel where x: "x = (name, rel)" by (cases x)
  from Cons.prems x obtain todo dn where
    p: "progress E rel (world st) = Inr (todo, dn)" "todo \<le> 0"
    by (auto simp: idle_def split: sum.splits)
  have "idle E (world (emit (ProgressCall name) st)) rels"
    using Cons.prems by (simp add: idle_def)
  from Cons.IH [OF this] show ?case
    using x p by (simp add: Let_def emit_def)
qed

text \<open>
  Claim C6. Without \<^verbatim>\<open>--daemon\<close> the worker does stop after one cycle, but line 49
  tests the loop variable \<open>run_daemon\<close>, which is still \<open>True\<close> there: when no relation
  had work, the single pass sleeps between \<open>t_min\<close> and \<open>t_max\<close> seconds before it
  returns 0. The claim says that a single pass never sleeps.
\<close>

theorem single_pass_sleeps_when_idle:
  assumes "\<not> daemon a" and "0 \<le> t_min a" and "t_min a < t_max a"
    and "resolve E (relnames a) [] \<lparr>world = w0, events = [], draws = 0\<rparr>
           = (Inr rels, \<lparr>world = w0, events = [], draws = 0\<rparr>)"
    and "idle E w0 rels"
  shows "\<exists>d. main E a (Suc fuel) w0 =
              (Some (Returned 0),
               \<lparr>world = w0, events = map (ProgressCall \<circ> fst) rels @ [Sleep d], draws = 1\<rparr>)
            \<and> t_min a \<le> d \<and> d < t_max a"
proof -
  let ?st0 = "\<lparr>world = w0, events = [], draws = 0\<rparr>"
  let ?st1 = "\<lparr>world = w0, events = map (ProgressCall \<circ> fst) rels, draws = 0\<rparr>"
  have f: "for_rels E rels False ?st0 = (Inr False, ?st1)"
    using for_rels_idle [of E ?st0 rels False] assms(5) by simp
  obtain d where d: "sleep_random E a ?st1 = Inr (emit (Sleep d) (?st1\<lparr>draws := Suc (draws ?st1)\<rparr>))"
      "t_min a \<le> d" "d < t_max a"
    using sleep_random_ok [OF assms(2,3), of E ?st1] by blast
  have "main E a (Suc fuel) w0 =
          (Some (Returned 0),
           \<lparr>world = w0, events = map (ProgressCall \<circ> fst) rels @ [Sleep d], draws = 1\<rparr>)"
    using assms(1,4) f d(1) by (simp add: main_def emit_def)
  then show ?thesis using d(2,3) by blast
qed

lemma resolve_idle_once:
  "resolve example_env (relnames args_idle_once) [] st = (Inr [(''pipeline.reso.ScanInfo'', 0)], st)"
proof -
  have "relnames args_idle_once = [''pipeline.reso.ScanInfo'']" by code_simp
  then show ?thesis by (simp add: rsplit1_def example_env_def)
qed

theorem single_pass_sleeps_when_idle_witness:
  "main example_env args_idle_once 1 (\<lambda>r. 0) =
     (Some (Returned 0),
      \<lparr>world = (\<lambda>r. 0), events = [ProgressCall ''pipeline.reso.ScanInfo'', Sleep 5], draws = 1\<rparr>)"
proof -
  have i: "idle example_env (\<lambda>r. 0) [(''pipeline.reso.ScanInfo'', 0)]"
    by (simp add: idle_def example_env_def)
  have a: "\<not> daemon args_idle_once" "0 \<le> t_min args_idle_once"
      "t_min args_idle_once < t_max args_idle_once"
    by (simp_all add: args_idle_once_def)
  obtain d where d: "main example_env args_idle_once (Suc 0) (\<lambda>r. 0) =
       (Some (Returned 0),
        \<lparr>world = (\<lambda>r. 0), events = map (ProgressCall \<circ> fst) [(''pipeline.reso.ScanInfo'', 0::nat)] @ [Sleep d],
         draws = 1\<rparr>)" "t_min args_idle_once \<le> d" "d < t_max args_idle_once"
    using single_pass_sleeps_when_idle [OF a resolve_idle_once i, of 0] by blast
  from d(2,3) have "d = 5" by (simp add: args_idle_once_def)
  with d(1) show ?thesis by simp
qed

text \<open>
  Claim C5. \<^verbatim>\<open>np.random.randint(t_min, t_max)\<close> excludes \<open>t_max\<close>, so with
  \<open>t_min = t_max\<close> (and with any \<open>t_max \<le> t_min\<close>) an idle cycle does not sleep: the
  draw raises \<^verbatim>\<open>ValueError\<close>, which nothing catches, and the worker ends. The claim
  says that with \<open>t_min = t_max = 5\<close> it sleeps exactly 5 seconds.
\<close>

theorem empty_interval_raises:
  assumes "t_max a \<le> t_min a"
    and "resolve E (relnames a) [] \<lparr>world = w0, events = [], draws = 0\<rparr>
           = (Inr rels, \<lparr>world = w0, events = [], draws = 0\<rparr>)"
    and "idle E w0 rels"
  shows "main E a (Suc fuel) w0 =
           (Some (Raised (ValueError ''low >= high'')),
            \<lparr>world = w0, events = map (ProgressCall \<circ> fst) rels, draws = 0\<rparr>)"
proof -
  let ?st0 = "\<lparr>world = w0, events = [], draws = 0\<rparr>"
  let ?st1 = "\<lparr>world = w0, events = map (ProgressCall \<circ> fst) rels, draws = 0\<rparr>"
  have f: "for_rels E rels False ?st0 = (Inr False, ?st1)"
    using for_rels_idle [of E ?st0 rels False] assms(3) by simp
  have s: "sleep_random E a ?st1 = Inl (ValueError ''low >= high'')"
    using assms(1) by (simp add: sleep_random_def randint_def)
  show ?thesis using assms(2) f s by (simp add: main_def)
qed

lemma resolve_daemon_5_5:
  "resolve example_env (relnames args_daemon_5_5) [] st = (Inr [(''pipeline.reso.ScanInfo'', 0)], st)"
proof -
  have "relnames args_daemon_5_5 = [''pipeline.reso.ScanInfo'']" by code_simp
  then show ?thesis by (simp add: rsplit1_def example_env_def)
qed

theorem empty_interval_raises_witness:
  "daemon args_daemon_5_5 \<and> t_min args_daemon_5_5 = 5 \<and> t_max args_daemon_5_5 = 5
   \<and> main example_env args_daemon_5_5 1 (\<lambda>r. 0) =
       (Some (Raised (ValueError ''low >= high'')),
        \<lparr>world = (\<lambda>r. 0), events = [ProgressCall ''pipeline.reso.ScanInfo''], draws = 0\<rparr>)"
proof -
  have i: "idle example_env (\<lambda>r. 0) [(''pipeline.reso.ScanInfo'', 0)]"
    by (simp add: idle_def example_env_def)
  have a: "t_max args_daemon_5_5 \<le> t_min args_daemon_5_5"
    by (simp add: args_daemon_5_5_def)
  show ?thesis
    using empty_interval_raises [OF a resolve_daemon_5_5 i, of 0]
    by (simp add: args_daemon_5_5_def)
qed

text \<open>
  Nothing in \<^verbatim>\<open>main\<close> catches an exception of \<^verbatim>\<open>populate\<close>: if the call raises, the
  poll stops there and the relations after it are not reached in that run.
\<close>

lemma for_rels_populate_raises:
  assumes "progress E rel (world st) = Inr (todo, dn)" and "0 < todo"
    and "populate E rel (world st) = Inl e"
  shows "for_rels E ((name, rel) # rest) pop st =
           (Inl e, emit (PopulateCall name) (emit (ProgressCall name) st))"
  using assms by (simp add: Let_def emit_def)

section \<open>Properties of \<^verbatim>\<open>reso.py\<close>\<close>

















lemma tuples_tables [simp]:
  "tuples (ScanInfo db) = ScanInfo_rows db"
  "tuples (ScanInfo_Slice db) = ScanInfo_Slice_rows db"
  "tuples (CorrectionChannel db) = CorrectionChannel_rows db"
  "tuples (RasterCorrection db) = RasterCorrection_rows db"
  by (simp_all add: ScanInfo_def ScanInfo_Slice_def CorrectionChannel_def RasterCorrection_def)














text \<open>
  Claim C7. Called on one segmentation task whose scan has its \<^verbatim>\<open>ScanInfo\<close> row and
  whose compartment is neither \<^verbatim>\<open>'soma'\<close> nor \<^verbatim>\<open>'axon'\<close>, the method constructs a
  \<^verbatim>\<open>PipelineException\<close> and drops it: the call does not end with that exception. It
  goes on to the \<^verbatim>\<open>return\<close> statement, whose read of the unassigned local
  \<open>num_components\<close> is what ends the call, with \<^verbatim>\<open>UnboundLocalError\<close>.
\<close>

theorem estimate_num_components_discards_exception:
  assumes "fetch1 (restrict_rel (ScanInfo db) self) = Inr t"
    and "map_of t ''um_height'' = Some h" and "map_of t ''um_width'' = Some w"
    and "fetch1_attr self ''compartment'' = Inr (S c)"
    and "c \<noteq> ''soma''" and "c \<noteq> ''axon''"
  shows "estimate_num_components db self =
           \<lparr>constructed = [PipelineException
                             (''Compartment type '' @ [CHR 0x27] @ c @ [CHR 0x27] @
                              '' not recognized'')],
            outcome = Inl (UnboundLocalError ''num_components'')\<rparr>"
  using assms by (simp add: estimate_num_components_def)

text \<open>The two recognised compartments construct nothing and return the rounded estimate.\<close>

lemma estimate_num_components_soma:
  assumes "fetch1 (restrict_rel (ScanInfo db) self) = Inr t"
    and "map_of t ''um_height'' = Some h" and "map_of t ''um_width'' = Some w"
    and "fetch1_attr self ''compartment'' = Inr (S ''soma'')"
  shows "estimate_num_components db self =
           \<lparr>constructed = [], outcome = Inr (py_round (number w * number h * 10 * (1 / 10000)))\<rparr>"
  using assms by (simp add: estimate_num_components_def)

lemma estimate_num_components_axon:
  assumes "fetch1 (restrict_rel (ScanInfo db) self) = Inr t"
    and "map_of t ''um_height'' = Some h" and "map_of t ''um_width'' = Some w"
    and "fetch1_attr self ''compartment'' = Inr (S ''axon'')"
  shows "estimate_num_components db self =
           \<lparr>constructed = [], outcome = Inr (py_round (number w * number h * 10 * (1 / 1000)))\<rparr>"
  using assms by (simp add: estimate_num_components_def)

lemma fetch1_ScanInfo_task:
  "fetch1 (restrict_rel (ScanInfo db_ready) (SegmentationTask db_ready)) = Inr scan_row"
  by (simp add: fetch1_def restrict_rel_def common_def heading_def ScanInfo_def
      SegmentationTask_def scan_pk_def db_ready_def agree_def scan_row_def scan_key_def)

theorem estimate_num_components_discards_exception_witness:
  "fetch1 (restrict_rel (ScanInfo db_ready) (SegmentationTask db_ready)) = Inr scan_row
   \<and> fetch1_attr (SegmentationTask db_ready) ''compartment'' = Inr (S ''bouton'')
   \<and> estimate_num_components db_ready (SegmentationTask db_ready) =
       \<lparr>constructed = [PipelineException
                         (''Compartment type '' @ [CHR 0x27] @ ''bouton'' @ [CHR 0x27] @
                          '' not recognized'')],
        outcome = Inl (UnboundLocalError ''num_components'')\<rparr>"
proof -
  have h: "map_of scan_row ''um_height'' = Some (Q 400)"
    and w: "map_of scan_row ''um_width'' = Some (Q 500)"
    by (simp_all add: scan_row_def)
  have c: "fetch1_attr (SegmentationTask db_ready) ''compartment'' = Inr (S ''bouton'')"
    by (simp add: fetch1_attr_def fetch1_def SegmentationTask_def db_ready_def scan_key_def)
  have n: "''bouton'' \<noteq> ''soma''" "''bouton'' \<noteq> ''axon''" by simp_all
  show ?thesis
    using estimate_num_components_discards_exception [OF fetch1_ScanInfo_task h w c n]
      fetch1_ScanInfo_task c
    by simp
qed

section \<open>Properties of \<^verbatim>\<open>aodtrk.py\<close>\<close>





lemma tuples_EyeFrame [simp]: "tuples (EyeFrame db) = EyeFrame_rows db"
  by (simp add: EyeFrame_def)



lemma only_param_0_updates [simp]:
  "only_param_0 (db\<lparr>EyeFrame_rows := rows\<rparr>) = (only_param_0 db)\<lparr>EyeFrame_rows := rows\<rparr>"
  "only_param_0 (db\<lparr>EyeFrame_Detection_rows := rows\<rparr>) =
     (only_param_0 db)\<lparr>EyeFrame_Detection_rows := rows\<rparr>"
  by (simp_all add: only_param_0_def)











section \<open>Properties of the Cascade Delete Manager\<close>


















section \<open>Properties of the Populate Executor\<close>

























end
